theory Spec2Isabelle
  imports Main "HOL-Library.AList" "HOL-Library.Word"
begin

section \<open>Strings, paths and the data model of \<open>bot.py\<close>\<close>

text \<open>
  A Python \<open>str\<close> is modelled as a \<open>string\<close>; a \<open>char\<close> stands for a code point below 256.
  On these code points \<open>str.lower\<close> moves A--Z and the Latin-1 capitals (C0--DE except the
  multiplication sign D7) up by 32 and leaves every other code point alone.
\<close>

definition lower_char :: "char \<Rightarrow> char" where
  "lower_char c =
     (let n = (of_char c :: nat)
      in if (65 \<le> n \<and> n \<le> 90) \<or> (192 \<le> n \<and> n \<le> 222 \<and> n \<noteq> 215)
         then char_of (n + 32) else c)"

definition lower :: "string \<Rightarrow> string" where
  "lower s = map lower_char s"

text \<open>\<open>s.replace(" ", "_")\<close>: every occurrence of the one-character string is replaced.\<close>

definition replace_char :: "char \<Rightarrow> char \<Rightarrow> string \<Rightarrow> string" where
  "replace_char a b s = map (\<lambda>c. if c = a then b else c) s"

text \<open>The expression \<open>subject_name.lower().replace(" ", "_")\<close> of \<open>create_subject\<close>,
  \<open>set_active_subject\<close> and \<open>delete_subject\<close>.\<close>

definition subject_key_of :: "string \<Rightarrow> string" where
  "subject_key_of subject_name = replace_char CHR '' '' CHR ''_'' (lower subject_name)"

text \<open>\<open>s.endswith(suffix)\<close>.\<close>

definition endswith :: "string \<Rightarrow> string \<Rightarrow> bool" where
  "endswith s suf = (length suf \<le> length s \<and> drop (length s - length suf) s = suf)"

text \<open>\<open>str(user_id)\<close>: the decimal numeral of a Python int.\<close>

fun digits10 :: "nat \<Rightarrow> string" where
  "digits10 n =
     (if n < 10 then [char_of (48 + n)]
      else digits10 (n div 10) @ [char_of (48 + n mod 10)])"

declare digits10.simps [simp del]

definition str_int :: "int \<Rightarrow> string" where
  "str_int i = (if i < 0 then CHR ''-'' # digits10 (nat (- i)) else digits10 (nat i))"

text \<open>
  \<open>PurePath.stem\<close>: the final component without its last suffix. The name is cut at its
  last dot unless that dot is the first or the last character.
\<close>

definition rfind :: "char \<Rightarrow> string \<Rightarrow> nat option" where
  "rfind c s =
     (if c \<in> set s then Some (length s - 1 - length (takeWhile (\<lambda>x. x \<noteq> c) (rev s)))
      else None)"

definition stem :: "string \<Rightarrow> string" where
  "stem nm =
     (case rfind CHR ''.'' nm of
        None \<Rightarrow> nm
      | Some i \<Rightarrow> if 0 < i \<and> i < length nm - 1 then take i nm else nm)"

text \<open>
  A path is the list of its components below \<open>base_path\<close> (\<open>./user_data\<close>); \<open>[]\<close> is
  \<open>base_path\<close> itself. The operator \<open>/\<close> of \<open>pathlib\<close> appends one component: subject keys
  and attachment names are taken to be plain file names (not empty, no separator, not a
  dot name), and names are compared exactly, as on a POSIX file system.
\<close>

type_synonym path = "string list"

type_synonym bytes = "8 word list"

datatype node = Dir | File bytes

text \<open>
  The value stored under \<open>profile["subjects"][subject_key]\<close>. The code treats two entries
  as optional: \<open>"question_bank"\<close> (read with \<open>.get\<close>, created by \<open>add_question_to_bank\<close> when
  missing) and \<open>"key"\<close> (absent until \<open>get_active_subject\<close> stores it).
\<close>

record subject =
  name :: string
  game :: string
  created :: bool
  question_bank :: "string list option"
  key :: "string option"

text \<open>
  A Python dict keeps insertion order, which \<open>delete_subject\<close> observes through
  \<open>next(iter(...))\<close>; it is an association list. \<open>AList.update\<close> is \<open>d[k] = v\<close> (in place
  for a present key, appended for a new one), \<open>AList.delete\<close> is \<open>del d[k]\<close>,
  \<open>AList.map_entry\<close> mutates the value stored under a key, \<open>map_of\<close> looks a key up.
\<close>

record profile =
  subjects :: "(string \<times> subject) list"
  active_subject :: "string option"

text \<open>
  The state the program runs in: the manager's \<open>self.profiles\<close>, the content of
  \<open>profiles.json\<close>, the tree below \<open>base_path\<close>, and the condition of the environment (whether
  writing the profile file, creating directories, removing a tree and downloading an
  attachment raise an \<open>OSError\<close>).
\<close>

record world =
  profiles :: "(string \<times> profile) list"
  profiles_file :: "(string \<times> profile) list"
  fs :: "(path \<times> node) list"
  save_fails :: bool
  mkdir_fails :: bool
  rmtree_fails :: bool
  download_fails :: bool

text \<open>The exceptions that leave the modelled methods.\<close>

datatype error = OSError | KeyError | HTTPException

text \<open>
  A method takes the state and returns its result, or the exception it raised, together
  with the state it leaves behind: an exception does not undo what was done before it.
\<close>

type_synonym 'a action = "world \<Rightarrow> (error + 'a) \<times> world"

definition returns :: "'a \<Rightarrow> 'a action" where
  "returns x st = (Inr x, st)"

definition raises :: "error \<Rightarrow> 'a action" where
  "raises e st = (Inl e, st)"

definition and_then :: "'a action \<Rightarrow> ('a \<Rightarrow> 'b action) \<Rightarrow> 'b action" where
  "and_then m f st =
     (case m st of
        (Inl e, st') \<Rightarrow> (Inl e, st')
      | (Inr x, st') \<Rightarrow> f x st')"

section \<open>\<open>UserProfileManager\<close>\<close>

text \<open>\<open>_save_profiles\<close>: \<open>open(self.profiles_file, 'w')\<close> and \<open>json.dump\<close>. When the file
  cannot be opened the \<open>OSError\<close> leaves the method and the file keeps its content.\<close>

definition save_profiles :: "unit action" where
  "save_profiles st =
     (if save_fails st then (Inl OSError, st)
      else (Inr (), st\<lparr>profiles_file := profiles st\<rparr>))"

definition empty_profile :: profile where
  "empty_profile = \<lparr>subjects = [], active_subject = None\<rparr>"

text \<open>\<open>get_user_profile\<close>. The dict it returns is the one stored in \<open>self.profiles\<close>; the
  model returns its value and the callers mutate the stored entry through
  \<open>modify_profile\<close>.\<close>

definition get_user_profile :: "int \<Rightarrow> profile action" where
  "get_user_profile user_id st =
     (let user_id_str = str_int user_id
      in case map_of (profiles st) user_id_str of
           Some p \<Rightarrow> (Inr p, st)
         | None \<Rightarrow>
             and_then save_profiles (\<lambda>_. returns empty_profile)
               (st\<lparr>profiles := AList.update user_id_str empty_profile (profiles st)\<rparr>))"

definition modify_profile :: "int \<Rightarrow> (profile \<Rightarrow> profile) \<Rightarrow> unit action" where
  "modify_profile user_id f st =
     (Inr (), st\<lparr>profiles := AList.map_entry (str_int user_id) f (profiles st)\<rparr>)"

text \<open>\<open>get_subject_path\<close>: \<open>self.base_path / str(user_id) / subject_key\<close>.\<close>

definition get_subject_path :: "int \<Rightarrow> string \<Rightarrow> path" where
  "get_subject_path user_id subject_key = [str_int user_id, subject_key]"

text \<open>
  \<open>Path.mkdir(parents=True, exist_ok=True)\<close>: every missing directory on the way is
  created; a regular file on the way raises. The list walked is the path's prefixes,
  shortest first.
\<close>

fun mkdirs :: "path list \<Rightarrow> (path \<times> node) list \<Rightarrow> bool \<times> (path \<times> node) list" where
  "mkdirs [] f = (True, f)"
| "mkdirs (p # ps) f =
     (case map_of f p of
        Some (File _) \<Rightarrow> (False, f)
      | Some Dir \<Rightarrow> mkdirs ps f
      | None \<Rightarrow> mkdirs ps (f @ [(p, Dir)]))"

definition prefixes_of :: "path \<Rightarrow> path list" where
  "prefixes_of p = map (\<lambda>n. take n p) [0 ..< Suc (length p)]"

definition mkdir :: "path \<Rightarrow> unit action" where
  "mkdir p st =
     (if mkdir_fails st then (Inl OSError, st)
      else case mkdirs (prefixes_of p) (fs st) of
             (True, f) \<Rightarrow> (Inr (), st\<lparr>fs := f\<rparr>)
           | (False, f) \<Rightarrow> (Inl OSError, st\<lparr>fs := f\<rparr>))"

definition new_subject :: "string \<Rightarrow> string \<Rightarrow> subject" where
  "new_subject subject_name g =
     \<lparr>name = subject_name, game = g, created = True, question_bank = Some [], key = None\<rparr>"

definition create_subject :: "int \<Rightarrow> string \<Rightarrow> string \<Rightarrow> bool action" where
  "create_subject user_id subject_name g =
     and_then (get_user_profile user_id) (\<lambda>profile.
       let subject_key = subject_key_of subject_name
       in if map_of (subjects profile) subject_key \<noteq> None then returns False
          else
            and_then (mkdir (get_subject_path user_id subject_key @ [''lectures''])) (\<lambda>_.
            and_then (mkdir (get_subject_path user_id subject_key @ [''practice_tests''])) (\<lambda>_.
            and_then (modify_profile user_id (\<lambda>p.
                p\<lparr>subjects := AList.update subject_key (new_subject subject_name g) (subjects p),
                  active_subject :=
                    (if active_subject p = None then Some subject_key else active_subject p)\<rparr>)) (\<lambda>_.
            and_then save_profiles (\<lambda>_.
            returns True)))))"

definition set_active_subject :: "int \<Rightarrow> string \<Rightarrow> bool action" where
  "set_active_subject user_id subject_name =
     and_then (get_user_profile user_id) (\<lambda>profile.
       let subject_key = subject_key_of subject_name
       in if map_of (subjects profile) subject_key = None then returns False
          else
            and_then (modify_profile user_id (\<lambda>p. p\<lparr>active_subject := Some subject_key\<rparr>)) (\<lambda>_.
            and_then save_profiles (\<lambda>_.
            returns True)))"

text \<open>
  \<open>get_active_subject\<close>. \<open>profile["subjects"][subject_key]\<close> raises \<open>KeyError\<close> for a key
  that is not stored. \<open>subject_info\<close> is the stored dict itself, so the assignment
  \<open>subject_info["key"] = subject_key\<close> changes the entry in \<open>self.profiles\<close>; the value
  returned is that entry as it is after the assignment.
\<close>

definition get_active_subject :: "int \<Rightarrow> subject option action" where
  "get_active_subject user_id =
     and_then (get_user_profile user_id) (\<lambda>profile.
       case active_subject profile of
         None \<Rightarrow> returns None
       | Some subject_key \<Rightarrow>
           (case map_of (subjects profile) subject_key of
              None \<Rightarrow> raises KeyError
            | Some subject_info \<Rightarrow>
                and_then (modify_profile user_id (\<lambda>p.
                    p\<lparr>subjects :=
                        AList.map_entry subject_key (\<lambda>s. s\<lparr>key := Some subject_key\<rparr>) (subjects p)\<rparr>)) (\<lambda>_.
                returns (Some (subject_info\<lparr>key := Some subject_key\<rparr>)))))"

definition set_subject_game :: "int \<Rightarrow> string \<Rightarrow> string \<Rightarrow> unit action" where
  "set_subject_game user_id subject_key g =
     and_then (get_user_profile user_id) (\<lambda>profile.
       if map_of (subjects profile) subject_key \<noteq> None then
         and_then (modify_profile user_id (\<lambda>p.
             p\<lparr>subjects := AList.map_entry subject_key (\<lambda>s. s\<lparr>game := g\<rparr>) (subjects p)\<rparr>)) (\<lambda>_.
         save_profiles)
       else returns ())"

definition add_question_to_bank :: "int \<Rightarrow> string \<Rightarrow> string \<Rightarrow> bool action" where
  "add_question_to_bank user_id subject_key question =
     and_then (get_user_profile user_id) (\<lambda>profile.
       if map_of (subjects profile) subject_key \<noteq> None then
         and_then (modify_profile user_id (\<lambda>p.
             p\<lparr>subjects :=
                 AList.map_entry subject_key
                   (\<lambda>s. s\<lparr>question_bank :=
                            Some ((case question_bank s of None \<Rightarrow> [] | Some qs \<Rightarrow> qs) @ [question])\<rparr>)
                   (subjects p)\<rparr>)) (\<lambda>_.
         and_then save_profiles (\<lambda>_.
         returns True))
       else returns False)"

text \<open>\<open>.get("question_bank", [])\<close>.\<close>

definition bank_of :: "subject \<Rightarrow> string list" where
  "bank_of s = (case question_bank s of None \<Rightarrow> [] | Some qs \<Rightarrow> qs)"

definition get_question_bank :: "int \<Rightarrow> string \<Rightarrow> string list action" where
  "get_question_bank user_id subject_key =
     and_then (get_user_profile user_id) (\<lambda>profile.
       case map_of (subjects profile) subject_key of
         Some s \<Rightarrow> returns (bank_of s)
       | None \<Rightarrow> returns [])"

text \<open>\<open>questions.pop(index)\<close> for an index already checked to be in range.\<close>

definition pop_at :: "nat \<Rightarrow> 'a list \<Rightarrow> 'a list" where
  "pop_at i xs = take i xs @ drop (Suc i) xs"

definition remove_question_from_bank :: "int \<Rightarrow> string \<Rightarrow> int \<Rightarrow> bool action" where
  "remove_question_from_bank user_id subject_key index =
     and_then (get_user_profile user_id) (\<lambda>profile.
       case map_of (subjects profile) subject_key of
         Some s \<Rightarrow>
           (let questions = bank_of s
            in if 0 \<le> index \<and> index < int (length questions) then
                 and_then (modify_profile user_id (\<lambda>p.
                     p\<lparr>subjects :=
                         AList.map_entry subject_key
                           (\<lambda>s. s\<lparr>question_bank := Some (pop_at (nat index) (bank_of s))\<rparr>)
                           (subjects p)\<rparr>)) (\<lambda>_.
                 and_then save_profiles (\<lambda>_.
                 returns True))
               else returns False)
       | None \<Rightarrow> returns False)"

text \<open>One row of \<open>list_subjects\<close>.\<close>

record subject_row =
  row_key :: string
  row_name :: string
  row_game :: string
  row_active :: bool

definition list_subjects :: "int \<Rightarrow> subject_row list action" where
  "list_subjects user_id =
     and_then (get_user_profile user_id) (\<lambda>profile.
       returns (map (\<lambda>(k, info).
                  \<lparr>row_key = k, row_name = name info, row_game = game info,
                   row_active = (Some k = active_subject profile)\<rparr>)
                (subjects profile)))"

text \<open>
  \<open>shutil.rmtree\<close>, reached only when \<open>subject_path.exists()\<close>: the directory goes with
  everything below it; a path that is a regular file raises.
\<close>

definition below :: "path \<Rightarrow> path \<Rightarrow> bool" where
  "below p q = (take (length p) q = p)"

definition rmtree :: "path \<Rightarrow> unit action" where
  "rmtree p st =
     (if rmtree_fails st then (Inl OSError, st)
      else case map_of (fs st) p of
             Some Dir \<Rightarrow> (Inr (), st\<lparr>fs := filter (\<lambda>(q, _). \<not> below p q) (fs st)\<rparr>)
           | _ \<Rightarrow> (Inl OSError, st))"

definition path_exists :: "path \<Rightarrow> world \<Rightarrow> bool" where
  "path_exists p st = (map_of (fs st) p \<noteq> None)"

text \<open>\<open>next(iter(d.keys())) if d else None\<close>.\<close>

definition first_key :: "('k \<times> 'v) list \<Rightarrow> 'k option" where
  "first_key d = (case d of [] \<Rightarrow> None | (k, _) # _ \<Rightarrow> Some k)"

definition delete_subject :: "int \<Rightarrow> string \<Rightarrow> bool action" where
  "delete_subject user_id subject_name =
     and_then (get_user_profile user_id) (\<lambda>profile.
       let subject_key = subject_key_of subject_name
       in if map_of (subjects profile) subject_key = None then returns False
          else
            and_then (\<lambda>st. if path_exists (get_subject_path user_id subject_key) st
                           then rmtree (get_subject_path user_id subject_key) st
                           else returns () st) (\<lambda>_.
            and_then (modify_profile user_id (\<lambda>p.
                p\<lparr>subjects := AList.delete subject_key (subjects p)\<rparr>)) (\<lambda>_.
            and_then (modify_profile user_id (\<lambda>p.
                if active_subject p = Some subject_key
                then p\<lparr>active_subject := first_key (subjects p)\<rparr>
                else p)) (\<lambda>_.
            and_then save_profiles (\<lambda>_.
            returns True)))))"

section \<open>\<open>DocumentManager\<close>\<close>

text \<open>
  \<open>PyPDF2\<close> is outside the repository. A reader maps the bytes of a file to \<open>None\<close> when
  \<open>PdfReader\<close> raises, and otherwise to its pages in order, a page being \<open>None\<close> when
  reaching it or its \<open>extract_text\<close> raises.
\<close>

type_synonym pdf_reader = "bytes \<Rightarrow> string option list option"

text \<open>The loop over \<open>pdf_reader.pages\<close>: the first exception ends it with the text
  gathered so far.\<close>

fun page_texts :: "string \<Rightarrow> string option list \<Rightarrow> string" where
  "page_texts text [] = text"
| "page_texts text (None # _) = text"
| "page_texts text (Some t # pages) = page_texts (text @ t @ [CHR 0x0A]) pages"

text \<open>\<open>extract_text_from_pdf\<close>: every exception is caught (and printed), and \<open>text\<close> is
  returned as it stands.\<close>

definition extract_text_from_pdf :: "pdf_reader \<Rightarrow> path \<Rightarrow> world \<Rightarrow> string" where
  "extract_text_from_pdf reader file_path st =
     (case map_of (fs st) file_path of
        Some (File b) \<Rightarrow>
          (case reader b of
             Some pages \<Rightarrow> page_texts [] pages
           | None \<Rightarrow> [])
      | _ \<Rightarrow> [])"

text \<open>\<open>folder.glob("*.pdf")\<close>: the entries of the directory whose name ends in \<open>.pdf\<close>,
  in the order of the directory; nothing when the directory does not exist.\<close>

definition glob_pdf :: "path \<Rightarrow> world \<Rightarrow> path list" where
  "glob_pdf folder st =
     (if map_of (fs st) folder = Some Dir
      then filter (\<lambda>q. q \<noteq> [] \<and> butlast q = folder \<and> endswith (last q) ''.pdf'')
             (map fst (fs st))
      else [])"

text \<open>The body shared by \<open>get_all_lectures_with_names\<close> and
  \<open>get_all_practice_tests_with_names\<close>: the loop filling the dict.\<close>

definition source_header :: "string \<Rightarrow> string" where
  "source_header filename = ''[SOURCE: '' @ filename @ '']'' @ [CHR 0x0A]"

definition collect_texts :: "pdf_reader \<Rightarrow> path \<Rightarrow> world \<Rightarrow> (string \<times> string) list" where
  "collect_texts reader folder st =
     foldl (\<lambda>acc pdf_file.
              let filename = stem (last pdf_file);
                  content = extract_text_from_pdf reader pdf_file st
              in AList.update filename (source_header filename @ content) acc)
       [] (glob_pdf folder st)"

text \<open>\<open>subject["key"]\<close> on the dict returned by \<open>get_active_subject\<close>.\<close>

definition with_active_key :: "int \<Rightarrow> 'a \<Rightarrow> (string \<Rightarrow> 'a action) \<Rightarrow> 'a action" where
  "with_active_key user_id dflt f =
     and_then (get_active_subject user_id) (\<lambda>subject.
       case subject of
         None \<Rightarrow> returns dflt
       | Some s \<Rightarrow> (case key s of None \<Rightarrow> raises KeyError | Some k \<Rightarrow> f k))"

definition get_all_lectures_with_names :: "pdf_reader \<Rightarrow> int \<Rightarrow> (string \<times> string) list action" where
  "get_all_lectures_with_names reader user_id =
     with_active_key user_id [] (\<lambda>k st.
       (Inr (collect_texts reader (get_subject_path user_id k @ [''lectures'']) st), st))"

definition get_all_practice_tests_with_names :: "pdf_reader \<Rightarrow> int \<Rightarrow> (string \<times> string) list action" where
  "get_all_practice_tests_with_names reader user_id =
     with_active_key user_id [] (\<lambda>k st.
       (Inr (collect_texts reader (get_subject_path user_id k @ [''practice_tests'']) st), st))"

text \<open>A \<open>discord.Attachment\<close>: its file name and the bytes a download yields.\<close>

record attachment =
  filename :: string
  payload :: bytes

text \<open>
  \<open>attachment.save(file_path)\<close>: the download, then \<open>open(file_path, 'wb')\<close> and the write.
  Opening needs the parent directory, and the path must not be a directory.
\<close>

definition attachment_save :: "attachment \<Rightarrow> path \<Rightarrow> unit action" where
  "attachment_save a file_path st =
     (if download_fails st then (Inl HTTPException, st)
      else if map_of (fs st) (butlast file_path) = Some Dir \<and> map_of (fs st) file_path \<noteq> Some Dir
      then (Inr (), st\<lparr>fs := AList.update file_path (File (payload a)) (fs st)\<rparr>)
      else (Inl OSError, st))"

definition category_folder :: "string \<Rightarrow> string" where
  "category_folder folder_type = (if folder_type = ''lecture'' then ''lectures'' else ''practice_tests'')"

definition save_attachment :: "attachment \<Rightarrow> int \<Rightarrow> string \<Rightarrow> bool action" where
  "save_attachment a user_id folder_type =
     (if \<not> endswith (filename a) ''.pdf'' then returns False
      else
        with_active_key user_id False (\<lambda>k st.
          let target_path = get_subject_path user_id k @ [category_folder folder_type];
              file_path = target_path @ [filename a]
          in case attachment_save a file_path st of
               (Inr _, st') \<Rightarrow> (Inr True, st')
             | (Inl _, st') \<Rightarrow> (Inr False, st')))"

definition list_files :: "int \<Rightarrow> string \<Rightarrow> string list action" where
  "list_files user_id folder_type =
     with_active_key user_id [] (\<lambda>k st.
       (Inr (map (\<lambda>f. stem (last f))
               (glob_pdf (get_subject_path user_id k @ [category_folder folder_type]) st)), st))"

section \<open>The question-bank commands of the bot\<close>

text \<open>What a command sends back; the constructors stand for the message texts
  (no active subject, question added with the new total, adding failed, question removed
  with the number left, question not found).\<close>

datatype reply =
    NoActiveSubject
  | QuestionAdded nat
  | AddFailed
  | QuestionRemoved int nat
  | QuestionNotFound int

definition add_question :: "int \<Rightarrow> string \<Rightarrow> reply action" where
  "add_question user_id question =
     with_active_key user_id NoActiveSubject (\<lambda>k.
       and_then (add_question_to_bank user_id k question) (\<lambda>success.
         if success then
           and_then (get_question_bank user_id k) (\<lambda>qs. returns (QuestionAdded (length qs)))
         else returns AddFailed))"

definition remove_question :: "int \<Rightarrow> int \<Rightarrow> reply action" where
  "remove_question user_id question_num =
     with_active_key user_id NoActiveSubject (\<lambda>k.
       and_then (remove_question_from_bank user_id k (question_num - 1)) (\<lambda>success.
         if success then
           and_then (get_question_bank user_id k)
             (\<lambda>qs. returns (QuestionRemoved question_num (length qs)))
         else returns (QuestionNotFound question_num)))"

section \<open>States used to run the code on concrete inputs\<close>

definition biology :: subject where
  "biology = \<lparr>name = ''Cell Biology'', game = ''Pokemon'', created = True,
               question_bank = Some [''What is a cell?''], key = None\<rparr>"

definition chemistry :: subject where
  "chemistry = \<lparr>name = ''Chemistry'', game = ''popular video games'', created = True,
                 question_bank = Some [], key = None\<rparr>"

definition two_subjects_profile :: profile where
  "two_subjects_profile =
     \<lparr>subjects = [(''cell_biology'', biology), (''chemistry'', chemistry)],
      active_subject = Some ''cell_biology''\<rparr>"

text \<open>User 7 after \<open>!newsubject Pokemon Cell Biology\<close> and \<open>!newsubject Chemistry\<close> and one
  \<open>!addq\<close>, rebuilt from the profile file at start-up, with nothing going wrong around it.\<close>

definition two_subjects :: world where
  "two_subjects =
     \<lparr>profiles = [(''7'', two_subjects_profile)],
      profiles_file = [(''7'', two_subjects_profile)],
      fs = [([], Dir), ([''7''], Dir),
            ([''7'', ''cell_biology''], Dir),
            ([''7'', ''cell_biology'', ''lectures''], Dir),
            ([''7'', ''cell_biology'', ''practice_tests''], Dir),
            ([''7'', ''chemistry''], Dir),
            ([''7'', ''chemistry'', ''lectures''], Dir),
            ([''7'', ''chemistry'', ''practice_tests''], Dir)],
      save_fails = False, mkdir_fails = False, rmtree_fails = False, download_fails = False\<rparr>"

text \<open>A fresh installation: \<open>_ensure_base_folder\<close> has made \<open>base_path\<close> and an empty
  profile file.\<close>

definition fresh_install :: world where
  "fresh_install =
     \<lparr>profiles = [], profiles_file = [], fs = [([], Dir)],
      save_fails = False, mkdir_fails = False, rmtree_fails = False, download_fails = False\<rparr>"

section \<open>Observers used to state the properties\<close>

text \<open>The profile \<open>get_user_profile\<close> hands out for a user: the stored one, or the empty
  one it would create.\<close>

definition profile_of :: "world \<Rightarrow> int \<Rightarrow> profile" where
  "profile_of st user_id =
     (case map_of (profiles st) (str_int user_id) of None \<Rightarrow> empty_profile | Some p \<Rightarrow> p)"

text \<open>The subject record stored under a user and a key, in \<open>self.profiles\<close> or in the
  profile file.\<close>

definition stored_subject :: "(string \<times> profile) list \<Rightarrow> int \<Rightarrow> string \<Rightarrow> subject option" where
  "stored_subject ps user_id k =
     (case map_of ps (str_int user_id) of None \<Rightarrow> None | Some p \<Rightarrow> map_of (subjects p) k)"

text \<open>
  The key as the specification words it, for comparison with \<open>subject_key_of\<close>: the
  display name lowercased, with whitespace replaced by underscores. Whitespace is the
  ASCII whitespace of Python's \<open>string.whitespace\<close>.
\<close>

definition is_whitespace :: "char \<Rightarrow> bool" where
  "is_whitespace c = (c \<in> set [CHR '' '', CHR 0x09, CHR 0x0A, CHR 0x0B, CHR 0x0C, CHR 0x0D])"

definition spec_normalized_key :: "string \<Rightarrow> string" where
  "spec_normalized_key display_name =
     map (\<lambda>c. if is_whitespace c then CHR ''_'' else c) (lower display_name)"

section \<open>The invariant of the active subject and the runs of the program\<close>

text \<open>A profile is in order when its active subject, if there is one, is a key of its
  \<open>subjects\<close>; the invariant asks this of every stored profile.\<close>

definition profile_ok :: "profile \<Rightarrow> bool" where
  "profile_ok p =
     (case active_subject p of None \<Rightarrow> True | Some k \<Rightarrow> k \<in> set (map fst (subjects p)))"

definition active_subject_invariant :: "world \<Rightarrow> bool" where
  "active_subject_invariant st = list_all (\<lambda>(u, p). profile_ok p) (profiles st)"

text \<open>
  The calls the bot makes on the two managers, and \<open>Outside\<close> for what happens around the
  program between two calls (the tree below \<open>base_path\<close> and the condition of the
  environment change). \<open>exec\<close> gives the state a call leaves, whether it returned or
  raised; \<open>run\<close> makes the calls of a list in order.
\<close>

datatype command =
    CreateSubject int string string
  | SetActiveSubject int string
  | GetActiveSubject int
  | SetSubjectGame int string string
  | AddQuestionToBank int string string
  | GetQuestionBank int string
  | RemoveQuestionFromBank int string int
  | ListSubjects int
  | DeleteSubject int string
  | GetAllLectures pdf_reader int
  | GetAllPracticeTests pdf_reader int
  | SaveAttachment attachment int string
  | ListFiles int string
  | AddQuestion int string
  | RemoveQuestion int int
  | Outside "(path \<times> node) list" bool bool bool bool

fun exec :: "command \<Rightarrow> world \<Rightarrow> world" where
  "exec (CreateSubject u n g) st = snd (create_subject u n g st)"
| "exec (SetActiveSubject u n) st = snd (set_active_subject u n st)"
| "exec (GetActiveSubject u) st = snd (get_active_subject u st)"
| "exec (SetSubjectGame u k g) st = snd (set_subject_game u k g st)"
| "exec (AddQuestionToBank u k q) st = snd (add_question_to_bank u k q st)"
| "exec (GetQuestionBank u k) st = snd (get_question_bank u k st)"
| "exec (RemoveQuestionFromBank u k i) st = snd (remove_question_from_bank u k i st)"
| "exec (ListSubjects u) st = snd (list_subjects u st)"
| "exec (DeleteSubject u n) st = snd (delete_subject u n st)"
| "exec (GetAllLectures r u) st = snd (get_all_lectures_with_names r u st)"
| "exec (GetAllPracticeTests r u) st = snd (get_all_practice_tests_with_names r u st)"
| "exec (SaveAttachment a u t) st = snd (save_attachment a u t st)"
| "exec (ListFiles u t) st = snd (list_files u t st)"
| "exec (AddQuestion u q) st = snd (add_question u q st)"
| "exec (RemoveQuestion u n) st = snd (remove_question u n st)"
| "exec (Outside f a b c d) st =
     st\<lparr>fs := f, save_fails := a, mkdir_fails := b, rmtree_fails := c, download_fails := d\<rparr>"

definition run :: "command list \<Rightarrow> world \<Rightarrow> world" where
  "run cs st = foldl (\<lambda>s c. exec c s) st cs"

text \<open>A short session of user 7 on a fresh installation.\<close>

definition session :: "command list" where
  "session =
     [CreateSubject 7 ''Cell Biology'' ''Pokemon'',
      CreateSubject 7 ''Chemistry'' ''popular video games'',
      AddQuestion 7 ''What is a cell?'',
      DeleteSubject 7 ''cell biology'']"

text \<open>The question bank stored for a user and a subject key (empty when there is none),
  read without going through the methods.\<close>

definition bank_in :: "world \<Rightarrow> int \<Rightarrow> string \<Rightarrow> string list" where
  "bank_in st user_id k =
     (case stored_subject (profiles st) user_id k of None \<Rightarrow> [] | Some s \<Rightarrow> bank_of s)"

text \<open>The state in which the subject record stored under a user and a key has been
  changed by \<open>g\<close>: the effect of an assignment to \<open>profile["subjects"][k][...]\<close>.\<close>

definition with_subject :: "int \<Rightarrow> string \<Rightarrow> (subject \<Rightarrow> subject) \<Rightarrow> world \<Rightarrow> world" where
  "with_subject user_id k g st =
     st\<lparr>profiles := AList.map_entry (str_int user_id)
          (\<lambda>p. p\<lparr>subjects := AList.map_entry k g (subjects p)\<rparr>) (profiles st)\<rparr>"








section \<open>Basic facts\<close>

subsection \<open>Evaluation, frames and the profile after a call\<close>

lemma str_int_7: "str_int 7 = ''7''"
  by code_simp

lemma key_cell_biology: "subject_key_of ''Cell Biology'' = ''cell_biology''"
  by code_simp

lemma get_user_profile_present:
  "map_of (profiles st) (str_int user_id) = Some p \<Longrightarrow> get_user_profile user_id st = (Inr p, st)"
  by (simp add: get_user_profile_def)

lemma two_subjects_user_7: "map_of (profiles two_subjects) (str_int 7) = Some two_subjects_profile"
  by (simp add: two_subjects_def str_int_7)

lemma mkdir_frame:
  "mkdir p st = (r, st') \<Longrightarrow>
     profiles st' = profiles st \<and> profiles_file st' = profiles_file st \<and>
     save_fails st' = save_fails st \<and> mkdir_fails st' = mkdir_fails st \<and>
     rmtree_fails st' = rmtree_fails st \<and> download_fails st' = download_fails st"
  by (auto simp: mkdir_def split: if_splits prod.splits bool.splits)

lemma rmtree_frame:
  "rmtree p st = (r, st') \<Longrightarrow>
     profiles st' = profiles st \<and> profiles_file st' = profiles_file st \<and>
     save_fails st' = save_fails st \<and> mkdir_fails st' = mkdir_fails st \<and>
     rmtree_fails st' = rmtree_fails st \<and> download_fails st' = download_fails st"
  by (auto simp: rmtree_def split: if_splits option.splits node.splits)

lemma map_entry_id_iff:
  "map_of xs k = Some v \<Longrightarrow> (AList.map_entry k f xs = xs) = (f v = v)"
  by (induction xs) (auto split: if_splits)

lemma get_active_subject_present:
  assumes "map_of (profiles st) (str_int user_id) = Some p"
      and "active_subject p = Some k"
      and "map_of (subjects p) k = Some s"
  shows "get_active_subject user_id st =
           (Inr (Some (s\<lparr>key := Some k\<rparr>)),
            st\<lparr>profiles := AList.map_entry (str_int user_id)
                  (\<lambda>p. p\<lparr>subjects := AList.map_entry k (\<lambda>s. s\<lparr>key := Some k\<rparr>) (subjects p)\<rparr>)
                  (profiles st)\<rparr>)"
  using assms
  by (simp add: get_active_subject_def and_then_def returns_def modify_profile_def
        get_user_profile_present)

lemma create_subject_profiles:
  assumes "create_subject user_id nm g st = (Inr True, st1)"
  shows "profiles st1 =
           AList.map_entry (str_int user_id)
             (\<lambda>p. p\<lparr>subjects := AList.update (subject_key_of nm) (new_subject nm g) (subjects p),
                    active_subject := (if active_subject p = None then Some (subject_key_of nm)
                                       else active_subject p)\<rparr>)
             (case map_of (profiles st) (str_int user_id) of
                Some p \<Rightarrow> profiles st
              | None \<Rightarrow> AList.update (str_int user_id) empty_profile (profiles st))"
  using assms
  by (auto simp: create_subject_def get_user_profile_def and_then_def returns_def
        modify_profile_def save_profiles_def Let_def
      split: option.splits if_splits prod.splits sum.splits dest!: mkdir_frame)

lemma delete_subject_profiles:
  assumes "delete_subject user_id nm st = (Inr True, st')"
  shows "profiles st' =
           AList.map_entry (str_int user_id)
             (\<lambda>p. if active_subject p = Some (subject_key_of nm)
                  then p\<lparr>active_subject := first_key (subjects p)\<rparr> else p)
             (AList.map_entry (str_int user_id)
                (\<lambda>p. p\<lparr>subjects := AList.delete (subject_key_of nm) (subjects p)\<rparr>)
                (profiles st))"
  using assms
  by (auto simp: delete_subject_def get_user_profile_def and_then_def returns_def
        modify_profile_def save_profiles_def Let_def empty_profile_def
      split: option.splits if_splits prod.splits sum.splits dest!: rmtree_frame)

subsection \<open>Every call keeps the invariant\<close>

lemma profile_ok_lookup:
  "profile_ok p =
     (case active_subject p of None \<Rightarrow> True | Some k \<Rightarrow> map_of (subjects p) k \<noteq> None)"
  by (simp add: profile_ok_def map_of_eq_None_iff split: option.splits)

lemma list_all_map_entry:
  "list_all (\<lambda>(u, p). Q p) xs \<Longrightarrow> (\<And>v. map_of xs k = Some v \<Longrightarrow> Q v \<Longrightarrow> Q (f v)) \<Longrightarrow>
     list_all (\<lambda>(u, p). Q p) (AList.map_entry k f xs)"
  by (induction xs) (auto split: if_splits)

lemma list_all_update:
  "list_all (\<lambda>(u, p). Q p) xs \<Longrightarrow> Q v \<Longrightarrow> list_all (\<lambda>(u, p). Q p) (AList.update k v xs)"
  by (induction xs) auto

lemma profile_ok_empty: "profile_ok empty_profile"
  by (simp add: profile_ok_lookup empty_profile_def)

lemma inv_get_user_profile:
  "active_subject_invariant st \<Longrightarrow> active_subject_invariant (snd (get_user_profile u st))"
  by (auto simp: active_subject_invariant_def get_user_profile_def and_then_def returns_def
        save_profiles_def profile_ok_empty Let_def
      intro!: list_all_update split: option.splits)

lemmas unfold_ops = get_user_profile_def and_then_def returns_def raises_def save_profiles_def
  modify_profile_def Let_def

lemma map_entry_twice:
  "AList.map_entry k f (AList.map_entry k g xs) = AList.map_entry k (\<lambda>v. f (g v)) xs"
  by (induction xs) auto

lemma fst_returns: "fst (returns x st) = Inr x"
  by (simp add: returns_def)

lemma snd_returns: "snd (returns x st) = st"
  by (simp add: returns_def)

lemma snd_raises: "snd (raises e st) = st"
  by (simp add: raises_def)

lemma snd_and_then:
  "snd (and_then m f st) =
     (case fst (m st) of Inl e \<Rightarrow> snd (m st) | Inr x \<Rightarrow> snd (f x (snd (m st))))"
  by (cases "m st") (auto simp: and_then_def split: sum.splits)

lemma fst_and_then:
  "fst (and_then m f st) =
     (case fst (m st) of Inl e \<Rightarrow> Inl e | Inr x \<Rightarrow> fst (f x (snd (m st))))"
  by (cases "m st") (auto simp: and_then_def split: sum.splits)

lemma profiles_mkdir: "profiles (snd (mkdir p st)) = profiles st"
  using mkdir_frame [of p st "fst (mkdir p st)" "snd (mkdir p st)"] by simp

lemma profiles_rmtree: "profiles (snd (rmtree p st)) = profiles st"
  using rmtree_frame [of p st "fst (rmtree p st)" "snd (rmtree p st)"] by simp

lemma profiles_save_profiles: "profiles (snd (save_profiles st)) = profiles st"
  by (simp add: save_profiles_def)

lemma profiles_modify_profile:
  "profiles (snd (modify_profile u f st)) = AList.map_entry (str_int u) f (profiles st)"
  by (simp add: modify_profile_def)

lemma fst_modify_profile: "fst (modify_profile u f st) = Inr ()"
  by (simp add: modify_profile_def)

lemmas profiles_steps = fst_modify_profile snd_and_then snd_returns snd_raises profiles_mkdir profiles_rmtree
  profiles_save_profiles profiles_modify_profile

lemma get_user_profile_lookup:
  "fst (get_user_profile u st) = Inr p \<Longrightarrow>
     map_of (profiles (snd (get_user_profile u st))) (str_int u) = Some p"
  by (auto simp: get_user_profile_def and_then_def returns_def save_profiles_def Let_def
        update_conv' split: option.splits if_splits)

lemma inv_create_subject:
  assumes "active_subject_invariant st"
  shows "active_subject_invariant (snd (create_subject u n g st))"
proof -
  let ?st1 = "snd (get_user_profile u st)"
  have i1: "list_all (\<lambda>(u, p). profile_ok p) (profiles ?st1)"
    using inv_get_user_profile [OF assms, of u] by (simp add: active_subject_invariant_def)
  have step: "list_all (\<lambda>(u, p). profile_ok p)
     (AList.map_entry (str_int u)
        (\<lambda>p. p\<lparr>subjects := AList.update (subject_key_of n) (new_subject n g) (subjects p),
               active_subject := (if active_subject p = None then Some (subject_key_of n)
                                  else active_subject p)\<rparr>)
        (profiles ?st1))"
    by (rule list_all_map_entry [OF i1]) (auto simp: profile_ok_lookup update_conv' split: option.splits)
  show ?thesis
    using i1 step
    by (simp add: active_subject_invariant_def create_subject_def profiles_steps Let_def
          split: sum.splits)
qed

lemma inv_set_active_subject:
  "active_subject_invariant st \<Longrightarrow> active_subject_invariant (snd (set_active_subject u n st))"
  by (auto simp: active_subject_invariant_def set_active_subject_def unfold_ops profile_ok_empty
        profile_ok_lookup update_conv' empty_profile_def
      intro!: list_all_update list_all_map_entry
      split: option.splits prod.splits sum.splits)

lemma inv_get_active_subject:
  "active_subject_invariant st \<Longrightarrow> active_subject_invariant (snd (get_active_subject u st))"
  by (auto simp: active_subject_invariant_def get_active_subject_def unfold_ops profile_ok_empty
        profile_ok_lookup update_conv' empty_profile_def map_of_map_entry
      intro!: list_all_update list_all_map_entry
      split: option.splits prod.splits sum.splits)

lemma inv_set_subject_game:
  "active_subject_invariant st \<Longrightarrow> active_subject_invariant (snd (set_subject_game u k g st))"
  by (auto simp: active_subject_invariant_def set_subject_game_def unfold_ops profile_ok_empty
        profile_ok_lookup update_conv' empty_profile_def map_of_map_entry
      intro!: list_all_update list_all_map_entry
      split: option.splits prod.splits sum.splits)

lemma inv_add_question_to_bank:
  "active_subject_invariant st \<Longrightarrow> active_subject_invariant (snd (add_question_to_bank u k q st))"
  by (auto simp: active_subject_invariant_def add_question_to_bank_def unfold_ops profile_ok_empty
        profile_ok_lookup update_conv' empty_profile_def map_of_map_entry
      intro!: list_all_update list_all_map_entry
      split: option.splits prod.splits sum.splits)

lemma inv_get_question_bank:
  "active_subject_invariant st \<Longrightarrow> active_subject_invariant (snd (get_question_bank u k st))"
  by (auto simp: active_subject_invariant_def get_question_bank_def unfold_ops profile_ok_empty
      intro!: list_all_update split: option.splits prod.splits sum.splits)

lemma inv_remove_question_from_bank:
  "active_subject_invariant st \<Longrightarrow>
     active_subject_invariant (snd (remove_question_from_bank u k i st))"
  by (auto simp: active_subject_invariant_def remove_question_from_bank_def unfold_ops
        profile_ok_empty profile_ok_lookup update_conv' empty_profile_def map_of_map_entry
      intro!: list_all_update list_all_map_entry
      split: option.splits prod.splits sum.splits)

lemma inv_list_subjects:
  "active_subject_invariant st \<Longrightarrow> active_subject_invariant (snd (list_subjects u st))"
  by (auto simp: active_subject_invariant_def list_subjects_def unfold_ops profile_ok_empty
      intro!: list_all_update split: option.splits prod.splits sum.splits)

lemma first_key_present: "first_key d = Some k \<Longrightarrow> map_of d k \<noteq> None"
  by (cases d) (auto simp: first_key_def)

lemma profile_ok_delete:
  assumes "profile_ok p"
  shows "profile_ok (if active_subject p = Some k
                     then p\<lparr>subjects := AList.delete k (subjects p),
                            active_subject := first_key (AList.delete k (subjects p))\<rparr>
                     else p\<lparr>subjects := AList.delete k (subjects p)\<rparr>)"
proof (cases "active_subject p = Some k")
  case True
  then show ?thesis
    by (auto simp: profile_ok_lookup dest: first_key_present split: option.splits)
next
  case False
  with assms show ?thesis
    by (auto simp: profile_ok_lookup delete_conv' split: option.splits)
qed

lemma inv_delete_subject:
  assumes "active_subject_invariant st"
  shows "active_subject_invariant (snd (delete_subject u n st))"
proof -
  let ?st1 = "snd (get_user_profile u st)"
  let ?k = "subject_key_of n"
  have i1: "list_all (\<lambda>(u, p). profile_ok p) (profiles ?st1)"
    using inv_get_user_profile [OF assms, of u] by (simp add: active_subject_invariant_def)
  have step: "list_all (\<lambda>(u, p). profile_ok p)
     (AList.map_entry (str_int u)
        (\<lambda>p. if active_subject (p\<lparr>subjects := AList.delete ?k (subjects p)\<rparr>) = Some ?k
             then p\<lparr>subjects := AList.delete ?k (subjects p),
                    active_subject := first_key (subjects (p\<lparr>subjects := AList.delete ?k (subjects p)\<rparr>))\<rparr>
             else p\<lparr>subjects := AList.delete ?k (subjects p)\<rparr>)
        (profiles ?st1))"
  proof (rule list_all_map_entry [OF i1])
    fix v assume "profile_ok v"
    from profile_ok_delete [OF this, of ?k]
    show "profile_ok
       (if active_subject (v\<lparr>subjects := AList.delete ?k (subjects v)\<rparr>) = Some ?k
        then v\<lparr>subjects := AList.delete ?k (subjects v),
               active_subject := first_key (subjects (v\<lparr>subjects := AList.delete ?k (subjects v)\<rparr>))\<rparr>
        else v\<lparr>subjects := AList.delete ?k (subjects v)\<rparr>)"
      by (simp split: if_splits)
  qed
  show ?thesis
    using i1 step
    by (simp add: active_subject_invariant_def delete_subject_def profiles_steps Let_def
          map_entry_twice if_distrib [of "\<lambda>p. p\<lparr>active_subject := _\<rparr>"] cong: if_cong
          split: sum.splits)
qed

lemma inv_and_then:
  assumes "active_subject_invariant st"
      and "\<And>st. active_subject_invariant st \<Longrightarrow> active_subject_invariant (snd (m st))"
      and "\<And>x st. active_subject_invariant st \<Longrightarrow> active_subject_invariant (snd (f x st))"
  shows "active_subject_invariant (snd (and_then m f st))"
  using assms by (simp add: snd_and_then split: sum.splits)

lemma inv_with_active_key:
  assumes "active_subject_invariant st"
      and "\<And>k st. active_subject_invariant st \<Longrightarrow> active_subject_invariant (snd (f k st))"
  shows "active_subject_invariant (snd (with_active_key u d f st))"
  unfolding with_active_key_def
  by (rule inv_and_then [OF assms(1) inv_get_active_subject])
     (auto simp: snd_returns snd_raises assms(2) split: option.splits)

lemma profiles_attachment_save: "profiles (snd (attachment_save a p st)) = profiles st"
  by (simp add: attachment_save_def)

lemma inv_save_attachment:
  "active_subject_invariant st \<Longrightarrow> active_subject_invariant (snd (save_attachment a u t st))"
  unfolding save_attachment_def
  apply (simp add: snd_returns Let_def)
  apply (rule impI)
  apply (erule inv_with_active_key)
  apply (simp add: active_subject_invariant_def split: prod.splits sum.splits)
  apply (metis profiles_attachment_save snd_conv)
  done

lemma inv_add_question:
  "active_subject_invariant st \<Longrightarrow> active_subject_invariant (snd (add_question u q st))"
  unfolding add_question_def
  by (erule inv_with_active_key, erule inv_and_then)
     (auto simp: inv_add_question_to_bank inv_get_question_bank snd_returns intro!: inv_and_then)

lemma inv_remove_question:
  "active_subject_invariant st \<Longrightarrow> active_subject_invariant (snd (remove_question u n st))"
  unfolding remove_question_def
  by (erule inv_with_active_key, erule inv_and_then)
     (auto simp: inv_remove_question_from_bank inv_get_question_bank snd_returns
        intro!: inv_and_then)

lemma exec_preserves_invariant:
  "active_subject_invariant st \<Longrightarrow> active_subject_invariant (exec c st)"
proof (cases c)
  case (Outside f a b c d)
  assume "active_subject_invariant st"
  then show ?thesis by (simp add: Outside active_subject_invariant_def)
qed (simp_all add: inv_create_subject inv_set_active_subject inv_get_active_subject
      inv_set_subject_game inv_add_question_to_bank inv_get_question_bank
      inv_remove_question_from_bank inv_list_subjects inv_delete_subject inv_save_attachment
      inv_add_question inv_remove_question inv_with_active_key
      get_all_lectures_with_names_def get_all_practice_tests_with_names_def list_files_def)

subsection \<open>The question-bank methods on a stored subject\<close>

lemma with_subject_profile:
  "map_of (profiles st) (str_int u) = Some p \<Longrightarrow>
     map_of (profiles (with_subject u k g st)) (str_int u)
       = Some (p\<lparr>subjects := AList.map_entry k g (subjects p)\<rparr>)"
  by (simp add: with_subject_def map_of_map_entry)

lemma with_subject_flags:
  "save_fails (with_subject u k g st) = save_fails st"
  "fs (with_subject u k g st) = fs st"
  "download_fails (with_subject u k g st) = download_fails st"
  "profiles_file (with_subject u k g st) = profiles_file st"
  by (simp_all add: with_subject_def)

lemma bank_in_lookup:
  "map_of (profiles st) (str_int u) = Some p \<Longrightarrow> map_of (subjects p) k = Some s \<Longrightarrow>
     bank_in st u k = bank_of s"
  by (simp add: bank_in_def stored_subject_def)

lemma remove_question_from_bank_present:
  assumes "map_of (profiles st) (str_int u) = Some p"
      and "map_of (subjects p) k = Some s"
  shows "remove_question_from_bank u k i st =
           (if 0 \<le> i \<and> i < int (length (bank_of s))
            then and_then save_profiles (\<lambda>_. returns True)
                   (with_subject u k
                      (\<lambda>s. s\<lparr>question_bank := Some (pop_at (nat i) (bank_of s))\<rparr>) st)
            else (Inr False, st))"
  using assms
  by (simp add: remove_question_from_bank_def get_user_profile_present and_then_def
        returns_def modify_profile_def Let_def with_subject_def)

lemma add_question_to_bank_present:
  assumes "map_of (profiles st) (str_int u) = Some p"
      and "map_of (subjects p) k = Some s"
  shows "add_question_to_bank u k q st =
           and_then save_profiles (\<lambda>_. returns True)
             (with_subject u k (\<lambda>s. s\<lparr>question_bank := Some (bank_of s @ [q])\<rparr>) st)"
  using assms
  by (simp add: add_question_to_bank_def get_user_profile_present and_then_def
        returns_def modify_profile_def Let_def bank_of_def with_subject_def)

lemma get_question_bank_present:
  assumes "map_of (profiles st) (str_int u) = Some p"
      and "map_of (subjects p) k = Some s"
  shows "get_question_bank u k st = (Inr (bank_of s), st)"
  using assms
  by (simp add: get_question_bank_def get_user_profile_present and_then_def returns_def)

lemma with_active_key_present:
  assumes "map_of (profiles st) (str_int u) = Some p"
      and "active_subject p = Some k"
      and "map_of (subjects p) k = Some s"
  shows "with_active_key u d f st = f k (with_subject u k (\<lambda>s. s\<lparr>key := Some k\<rparr>) st)"
  by (simp add: with_active_key_def and_then_def get_active_subject_present [OF assms]
        with_subject_def)

lemma save_then_True:
  "and_then save_profiles (\<lambda>_. returns True) st =
     (if save_fails st then (Inl OSError, st) else (Inr True, st\<lparr>profiles_file := profiles st\<rparr>))"
  by (simp add: and_then_def save_profiles_def returns_def)

lemma pop_at_0: "pop_at 0 xs = tl xs"
  by (simp add: pop_at_def drop_Suc)

lemma length_pop_at: "i < length xs \<Longrightarrow> length (pop_at i xs) = length xs - 1"
  by (simp add: pop_at_def)

lemma remove_question_present:
  assumes "map_of (profiles st) (str_int u) = Some p"
      and "active_subject p = Some k"
      and "map_of (subjects p) k = Some s"
  shows "fst (remove_question u n st) =
           (if 1 \<le> n \<and> n \<le> int (length (bank_of s))
            then (if save_fails st then Inl OSError
                  else Inr (QuestionRemoved n (length (bank_of s) - 1)))
            else Inr (QuestionNotFound n)) \<and>
         bank_in (snd (remove_question u n st)) u k =
           (if 1 \<le> n \<and> n \<le> int (length (bank_of s))
            then pop_at (nat (n - 1)) (bank_of s)
            else bank_of s)"
proof -
  define st1 where "st1 = with_subject u k (\<lambda>s. s\<lparr>key := Some k\<rparr>) st"
  define p1 where "p1 = p\<lparr>subjects := AList.map_entry k (\<lambda>s. s\<lparr>key := Some k\<rparr>) (subjects p)\<rparr>"
  define s1 where "s1 = s\<lparr>key := Some k\<rparr>"
  have p1: "map_of (profiles st1) (str_int u) = Some p1"
    unfolding st1_def p1_def by (rule with_subject_profile [OF assms(1)])
  have s1: "map_of (subjects p1) k = Some s1"
    using assms(3) by (simp add: p1_def s1_def map_of_map_entry)
  have b1: "bank_of s1 = bank_of s"
    by (simp add: bank_of_def s1_def)
  have f1: "save_fails st1 = save_fails st"
    by (simp add: st1_def with_subject_flags)
  have rq: "remove_question u n st =
      and_then (remove_question_from_bank u k (n - 1)) (\<lambda>success.
         if success then
           and_then (get_question_bank u k)
             (\<lambda>qs. returns (QuestionRemoved n (length qs)))
         else returns (QuestionNotFound n)) st1"
    unfolding remove_question_def st1_def by (rule with_active_key_present [OF assms])
  note rm = remove_question_from_bank_present [OF p1 s1, of "n - 1", unfolded b1 save_then_True]
  show ?thesis
  proof (cases "1 \<le> n \<and> n \<le> int (length (bank_of s))")
    case False
    then have "remove_question u n st = (Inr (QuestionNotFound n), st1)"
      by (auto simp: rq rm and_then_def returns_def)
    with False show ?thesis
      by (simp add: bank_in_lookup [OF p1 s1] b1)
  next
    case True
    define g where "g = (\<lambda>s. s\<lparr>question_bank := Some (pop_at (nat (n - 1)) (bank_of s))\<rparr>)"
    define st2 where "st2 = with_subject u k g st1"
    define p2 where "p2 = p1\<lparr>subjects := AList.map_entry k g (subjects p1)\<rparr>"
    have p2: "map_of (profiles st2) (str_int u) = Some p2"
      unfolding st2_def p2_def by (rule with_subject_profile [OF p1])
    have s2: "map_of (subjects p2) k = Some (g s1)"
      using s1 by (simp add: p2_def map_of_map_entry)
    have b2: "bank_of (g s1) = pop_at (nat (n - 1)) (bank_of s)"
      by (simp add: g_def bank_of_def b1 [unfolded bank_of_def])
    have len: "length (pop_at (nat (n - 1)) (bank_of s)) = length (bank_of s) - 1"
      using True by (intro length_pop_at) linarith
    have f2: "save_fails st2 = save_fails st"
      by (simp add: st2_def with_subject_flags f1)
    from True have rm': "remove_question_from_bank u k (n - 1) st1 =
        (if save_fails st then (Inl OSError, st2)
         else (Inr True, st2\<lparr>profiles_file := profiles st2\<rparr>))"
      using rm f2 by (simp add: st2_def g_def)
    show ?thesis
    proof (cases "save_fails st")
      case True
      then have "remove_question u n st = (Inl OSError, st2)"
        by (simp add: rq rm' and_then_def)
      with True \<open>1 \<le> n \<and> n \<le> int (length (bank_of s))\<close> show ?thesis
        by (simp add: bank_in_lookup [OF p2 s2] b2)
    next
      case False
      let ?st3 = "st2\<lparr>profiles_file := profiles st2\<rparr>"
      have p3: "map_of (profiles ?st3) (str_int u) = Some p2"
        using p2 by simp
      have "remove_question u n st =
          (Inr (QuestionRemoved n (length (bank_of s) - 1)), ?st3)"
        using False
        by (simp add: rq rm' and_then_def get_question_bank_present [OF p3 s2] returns_def b2 len)
      with False \<open>1 \<le> n \<and> n \<le> int (length (bank_of s))\<close> show ?thesis
        by (simp add: bank_in_lookup [OF p3 s2] b2)
    qed
  qed
qed

lemma add_question_state:
  assumes "map_of (profiles st) (str_int u) = Some p"
      and "active_subject p = Some k"
      and "map_of (subjects p) k = Some s"
  shows "\<exists>p' s'. map_of (profiles (snd (add_question u q st))) (str_int u) = Some p' \<and>
           active_subject p' = Some k \<and> map_of (subjects p') k = Some s' \<and>
           bank_of s' = bank_of s @ [q]"
proof -
  define st1 where "st1 = with_subject u k (\<lambda>s. s\<lparr>key := Some k\<rparr>) st"
  define p1 where "p1 = p\<lparr>subjects := AList.map_entry k (\<lambda>s. s\<lparr>key := Some k\<rparr>) (subjects p)\<rparr>"
  define s1 where "s1 = s\<lparr>key := Some k\<rparr>"
  define g where "g = (\<lambda>s. s\<lparr>question_bank := Some (bank_of s @ [q])\<rparr>)"
  define st2 where "st2 = with_subject u k g st1"
  define p2 where "p2 = p1\<lparr>subjects := AList.map_entry k g (subjects p1)\<rparr>"
  have p1: "map_of (profiles st1) (str_int u) = Some p1"
    unfolding st1_def p1_def by (rule with_subject_profile [OF assms(1)])
  have s1: "map_of (subjects p1) k = Some s1"
    using assms(3) by (simp add: p1_def s1_def map_of_map_entry)
  have p2: "map_of (profiles st2) (str_int u) = Some p2"
    unfolding st2_def p2_def by (rule with_subject_profile [OF p1])
  have s2: "map_of (subjects p2) k = Some (g s1)"
    using s1 by (simp add: p2_def map_of_map_entry)
  have a2: "active_subject p2 = Some k"
    using assms(2) by (simp add: p2_def p1_def)
  have b2: "bank_of (g s1) = bank_of s @ [q]"
    by (simp add: g_def s1_def bank_of_def)
  have aq: "add_question u q st =
      and_then (add_question_to_bank u k q) (\<lambda>success.
         if success then
           and_then (get_question_bank u k) (\<lambda>qs. returns (QuestionAdded (length qs)))
         else returns AddFailed) st1"
    unfolding add_question_def st1_def by (rule with_active_key_present [OF assms])
  have ad: "add_question_to_bank u k q st1 =
      (if save_fails st1 then (Inl OSError, st2)
       else (Inr True, st2\<lparr>profiles_file := profiles st2\<rparr>))"
    by (simp add: add_question_to_bank_present [OF p1 s1] save_then_True st2_def g_def
          with_subject_flags)
  have p3: "map_of (profiles (st2\<lparr>profiles_file := profiles st2\<rparr>)) (str_int u) = Some p2"
    using p2 by simp
  have "profiles (snd (add_question u q st)) = profiles st2"
    by (simp add: aq ad and_then_def get_question_bank_present [OF p3 s2] returns_def)
  with p2 s2 a2 b2 show ?thesis by auto
qed

subsection \<open>Listing and collecting documents\<close>









subsection \<open>The mutating methods when the profile file cannot be written\<close>








section \<open>Creating a subject whose key is taken\<close>

text \<open>
  Claim C2. When the key derived from the display name is already a key of the user's
  \<open>subjects\<close>, \<open>create_subject\<close> returns \<open>False\<close> and leaves the whole state as it was: the
  stored profile with its subject records, question banks and active subject, the profile
  file and the directory tree.
\<close>

theorem create_subject_duplicate_unchanged:
  assumes "map_of (profiles st) (str_int user_id) = Some p"
      and "subject_key_of subject_name \<in> fst ` set (subjects p)"
  shows "create_subject user_id subject_name g st = (Inr False, st)"
proof -
  from assms(2) have "map_of (subjects p) (subject_key_of subject_name) \<noteq> None"
    by (simp add: map_of_eq_None_iff)
  with assms(1) show ?thesis
    by (simp add: create_subject_def and_then_def returns_def get_user_profile_present)
qed

theorem create_subject_duplicate_unchanged_witness:
  "create_subject 7 ''Cell Biology'' ''Zelda'' two_subjects = (Inr False, two_subjects)"
proof -
  have b: "subject_key_of ''Cell Biology'' \<in> fst ` set (subjects two_subjects_profile)"
    by (simp add: key_cell_biology two_subjects_profile_def)
  show ?thesis
    by (rule create_subject_duplicate_unchanged [OF two_subjects_user_7 b])
qed

section \<open>The key of the first subject\<close>

text \<open>
  Claim C1, as the code has it. \<open>create_subject\<close> derives the key by lowercasing the
  display name and replacing every space character by an underscore; other whitespace is
  kept. When the user had no subject and nothing active and the creation succeeds,
  \<open>get_active_subject\<close> then returns the new subject with that key, and that key is the
  active one.
\<close>

theorem first_subject_becomes_active:
  assumes "profile_of st user_id = empty_profile"
      and "create_subject user_id nm g st = (Inr True, st1)"
  shows "fst (get_active_subject user_id st1)
           = Inr (Some ((new_subject nm g)\<lparr>key := Some (subject_key_of nm)\<rparr>)) \<and>
         active_subject (profile_of st1 user_id) = Some (subject_key_of nm) \<and>
         subject_key_of nm = map (\<lambda>c. if c = CHR '' '' then CHR ''_'' else c) (map lower_char nm)"
proof -
  let ?k = "subject_key_of nm"
  let ?p = "\<lparr>subjects = [(?k, new_subject nm g)], active_subject = Some ?k\<rparr>"
  have "map_of (profiles st1) (str_int user_id) = Some ?p"
    using assms(1)
    by (auto simp: create_subject_profiles [OF assms(2)] map_of_map_entry profile_of_def
          empty_profile_def update_conv' split: option.splits)
  then have "get_active_subject user_id st1 =
           (Inr (Some ((new_subject nm g)\<lparr>key := Some ?k\<rparr>)),
            st1\<lparr>profiles := AList.map_entry (str_int user_id)
                  (\<lambda>p. p\<lparr>subjects := AList.map_entry ?k (\<lambda>s. s\<lparr>key := Some ?k\<rparr>) (subjects p)\<rparr>)
                  (profiles st1)\<rparr>)"
    and "active_subject (profile_of st1 user_id) = Some ?k"
    by (simp_all add: get_active_subject_present profile_of_def)
  then show ?thesis
    by (simp add: subject_key_of_def replace_char_def lower_def)
qed

theorem first_subject_becomes_active_witness:
  "profile_of fresh_install 7 = empty_profile \<and>
   create_subject 7 ''Cell Biology'' ''Pokemon'' fresh_install
     = (Inr True, snd (create_subject 7 ''Cell Biology'' ''Pokemon'' fresh_install)) \<and>
   fst (get_active_subject 7 (snd (create_subject 7 ''Cell Biology'' ''Pokemon'' fresh_install)))
     = Inr (Some \<lparr>name = ''Cell Biology'', game = ''Pokemon'', created = True,
                  question_bank = Some [], key = Some ''cell_biology''\<rparr>)"
proof -
  have a: "profile_of fresh_install 7 = empty_profile"
    by (simp add: profile_of_def fresh_install_def)
  have "fst (create_subject 7 ''Cell Biology'' ''Pokemon'' fresh_install) = Inr True"
    by code_simp
  then have b: "create_subject 7 ''Cell Biology'' ''Pokemon'' fresh_install
     = (Inr True, snd (create_subject 7 ''Cell Biology'' ''Pokemon'' fresh_install))"
    by (metis prod.collapse)
  show ?thesis
    using first_subject_becomes_active [OF a b] a b
    by (simp add: new_subject_def key_cell_biology)
qed

text \<open>
  Claim C1 as worded fails on a display name with a tab: for the first subject
  \<open>A<TAB>b\<close> the active subject's key keeps the tab, while lowercasing and replacing
  whitespace by underscores gives \<open>a_b\<close>.
\<close>

theorem first_subject_key_tab_counterexample:
  "fst (create_subject 7 [CHR ''A'', CHR 0x09, CHR ''b''] ''Pokemon'' fresh_install) = Inr True \<and>
   fst (get_active_subject 7
          (snd (create_subject 7 [CHR ''A'', CHR 0x09, CHR ''b''] ''Pokemon'' fresh_install)))
     = Inr (Some \<lparr>name = [CHR ''A'', CHR 0x09, CHR ''b''], game = ''Pokemon'', created = True,
                  question_bank = Some [], key = Some [CHR ''a'', CHR 0x09, CHR ''b'']\<rparr>) \<and>
   spec_normalized_key [CHR ''A'', CHR 0x09, CHR ''b''] = ''a_b'' \<and>
   [CHR ''a'', CHR 0x09, CHR ''b''] \<noteq> spec_normalized_key [CHR ''A'', CHR 0x09, CHR ''b'']"
  by code_simp

section \<open>Deleting a subject\<close>

text \<open>
  Claim C3. After a successful \<open>delete_subject\<close> the subject is gone from the profile. If
  it was the active one, the active subject becomes the first remaining key in insertion
  order, or \<open>None\<close> when no subject remains; if it was not, the active subject is as before.
\<close>

theorem delete_subject_active:
  assumes "map_of (profiles st) (str_int user_id) = Some p"
      and "delete_subject user_id nm st = (Inr True, st')"
  shows "subjects (profile_of st' user_id) = AList.delete (subject_key_of nm) (subjects p) \<and>
         active_subject (profile_of st' user_id) =
           (if active_subject p = Some (subject_key_of nm)
            then (case AList.delete (subject_key_of nm) (subjects p) of
                    [] \<Rightarrow> None
                  | (k', _) # _ \<Rightarrow> Some k')
            else active_subject p)"
  using assms(1)
  by (simp add: delete_subject_profiles [OF assms(2)] profile_of_def map_of_map_entry first_key_def)

theorem delete_subject_active_witness:
  "delete_subject 7 ''Cell Biology'' two_subjects
     = (Inr True, snd (delete_subject 7 ''Cell Biology'' two_subjects)) \<and>
   active_subject two_subjects_profile = Some ''cell_biology'' \<and>
   subjects (profile_of (snd (delete_subject 7 ''Cell Biology'' two_subjects)) 7)
     = [(''chemistry'', chemistry)] \<and>
   active_subject (profile_of (snd (delete_subject 7 ''Cell Biology'' two_subjects)) 7)
     = Some ''chemistry''"
proof -
  have "fst (delete_subject 7 ''Cell Biology'' two_subjects) = Inr True"
    by code_simp
  then have b: "delete_subject 7 ''Cell Biology'' two_subjects
     = (Inr True, snd (delete_subject 7 ''Cell Biology'' two_subjects))"
    by (metis prod.collapse)
  show ?thesis
    using delete_subject_active [OF two_subjects_user_7 b] b
    by (simp add: key_cell_biology two_subjects_profile_def AList.delete_eq)
qed

section \<open>Reading the active subject writes to the profile\<close>

text \<open>
  Claim C10. For a user with an active subject, \<open>get_active_subject\<close> returns the stored
  record with its \<open>key\<close> entry set and leaves that same entry set in \<open>self.profiles\<close>: the
  in-memory profiles differ from before exactly when the record did not already carry this
  key. The next \<open>_save_profiles\<close> that succeeds writes the entry to the profile file.
\<close>

theorem get_active_subject_writes_key:
  assumes "map_of (profiles st) (str_int user_id) = Some p"
      and "active_subject p = Some k"
      and "map_of (subjects p) k = Some s"
  shows "fst (get_active_subject user_id st) = Inr (Some (s\<lparr>key := Some k\<rparr>)) \<and>
         stored_subject (profiles (snd (get_active_subject user_id st))) user_id k
           = Some (s\<lparr>key := Some k\<rparr>) \<and>
         (profiles (snd (get_active_subject user_id st)) = profiles st) = (key s = Some k) \<and>
         stored_subject (profiles_file (snd (save_profiles (snd (get_active_subject user_id st)))))
             user_id k
           = (if save_fails st then stored_subject (profiles_file st) user_id k
              else Some (s\<lparr>key := Some k\<rparr>))"
proof -
  let ?f = "\<lambda>p. p\<lparr>subjects := AList.map_entry k (\<lambda>s. s\<lparr>key := Some k\<rparr>) (subjects p)\<rparr>"
  let ?ps = "AList.map_entry (str_int user_id) ?f (profiles st)"
  have run: "get_active_subject user_id st = (Inr (Some (s\<lparr>key := Some k\<rparr>)), st\<lparr>profiles := ?ps\<rparr>)"
    by (rule get_active_subject_present [OF assms])
  have look: "stored_subject ?ps user_id k = Some (s\<lparr>key := Some k\<rparr>)"
    using assms by (simp add: stored_subject_def map_of_map_entry)
  have "(?f p = p) = (AList.map_entry k (\<lambda>s. s\<lparr>key := Some k\<rparr>) (subjects p) = subjects p)"
    by (cases p) auto
  also have "\<dots> = (s\<lparr>key := Some k\<rparr> = s)"
    by (rule map_entry_id_iff [OF assms(3)])
  also have "\<dots> = (key s = Some k)"
    by (cases s) auto
  finally have same: "(?ps = profiles st) = (key s = Some k)"
    by (simp add: map_entry_id_iff [OF assms(1)])
  show ?thesis
    using look same by (simp add: run save_profiles_def)
qed

theorem get_active_subject_writes_key_witness:
  "fst (get_active_subject 7 two_subjects) = Inr (Some (biology\<lparr>key := Some ''cell_biology''\<rparr>)) \<and>
   stored_subject (profiles (snd (get_active_subject 7 two_subjects))) 7 ''cell_biology''
     = Some (biology\<lparr>key := Some ''cell_biology''\<rparr>) \<and>
   profiles (snd (get_active_subject 7 two_subjects)) \<noteq> profiles two_subjects \<and>
   stored_subject (profiles_file (snd (save_profiles (snd (get_active_subject 7 two_subjects)))))
       7 ''cell_biology''
     = Some (biology\<lparr>key := Some ''cell_biology''\<rparr>) \<and>
   stored_subject (profiles_file two_subjects) 7 ''cell_biology'' = Some biology"
proof -
  have a: "active_subject two_subjects_profile = Some ''cell_biology''"
    by (simp add: two_subjects_profile_def)
  have b: "map_of (subjects two_subjects_profile) ''cell_biology'' = Some biology"
    by (simp add: two_subjects_profile_def)
  have c: "key biology \<noteq> Some ''cell_biology''" "\<not> save_fails two_subjects"
    by (simp_all add: biology_def two_subjects_def)
  have d: "stored_subject (profiles_file two_subjects) 7 ''cell_biology'' = Some biology"
    by (simp add: stored_subject_def two_subjects_def str_int_7 two_subjects_profile_def)
  show ?thesis
    using get_active_subject_writes_key [OF two_subjects_user_7 a b] c d by simp
qed

section \<open>The active subject is always one of the subjects\<close>

text \<open>
  Claim C4. If in every stored profile the active subject, when set, is a key of that
  profile's \<open>subjects\<close>, then the same holds after any sequence of calls:
  \<open>create_subject\<close>, \<open>set_active_subject\<close>, \<open>delete_subject\<close>, the question-bank and game
  methods, the readers, the document methods and the bot's question commands, whether they
  return or raise, and whatever happens to the files in between. It holds on a fresh
  installation, so it holds in every state reached from one.
\<close>

theorem active_subject_invariant_preserved:
  assumes "active_subject_invariant st"
  shows "active_subject_invariant (run cs st)"
  using assms unfolding run_def
  by (induction cs arbitrary: st) (simp_all add: exec_preserves_invariant)

theorem active_subject_invariant_preserved_witness:
  "active_subject_invariant fresh_install \<and>
   active_subject_invariant (run session fresh_install) \<and>
   map fst (subjects (profile_of (run session fresh_install) 7)) = [''chemistry''] \<and>
   active_subject (profile_of (run session fresh_install) 7) = Some ''chemistry''"
proof -
  have a: "active_subject_invariant fresh_install"
    by (simp add: active_subject_invariant_def fresh_install_def)
  have b: "map fst (subjects (profile_of (run session fresh_install) 7)) = [''chemistry'']"
    by code_simp
  have c: "active_subject (profile_of (run session fresh_install) 7) = Some ''chemistry''"
    by code_simp
  show ?thesis
    using active_subject_invariant_preserved [OF a, of session] a b c by simp
qed

section \<open>Removing a question by its number\<close>

text \<open>
  Claim C5. For a user whose active subject is stored, the command \<open>remove_question\<close>
  takes the number shown in the list, counted from 1, and removes the entry at that number
  minus one: a number from 1 to the length of the bank removes that entry (the call raises
  only if the profile file cannot be written), and any other number, also 1 on an empty
  bank, zero and the negative ones, is answered with "not found" without an exception and
  leaves the bank as it was. After \<open>add_question\<close>, \<open>remove_question 1\<close> removes the head of
  the bank, the question added first.
\<close>

theorem remove_question_one_based:
  assumes "map_of (profiles st) (str_int u) = Some p"
      and "active_subject p = Some k"
      and "map_of (subjects p) k = Some s"
  shows "fst (remove_question u n st) =
           (if 1 \<le> n \<and> n \<le> int (length (bank_of s))
            then (if save_fails st then Inl OSError
                  else Inr (QuestionRemoved n (length (bank_of s) - 1)))
            else Inr (QuestionNotFound n)) \<and>
         bank_in (snd (remove_question u n st)) u k =
           (if 1 \<le> n \<and> n \<le> int (length (bank_of s))
            then take (nat (n - 1)) (bank_of s) @ drop (nat n) (bank_of s)
            else bank_of s) \<and>
         bank_in (snd (remove_question u 1 (snd (add_question u q st)))) u k
           = tl (bank_of s @ [q])"
proof -
  have eq: "1 \<le> n \<Longrightarrow> Suc (nat (n - 1)) = nat n"
    by linarith
  obtain p' s' where after:
      "map_of (profiles (snd (add_question u q st))) (str_int u) = Some p'"
      "active_subject p' = Some k" "map_of (subjects p') k = Some s'"
      "bank_of s' = bank_of s @ [q]"
    using add_question_state [OF assms] by blast
  have "bank_in (snd (remove_question u 1 (snd (add_question u q st)))) u k
          = tl (bank_of s @ [q])"
    using remove_question_present [OF after(1-3), of 1]
    by (simp add: after(4) pop_at_0)
  then show ?thesis
    using remove_question_present [OF assms, of n] by (simp add: pop_at_def eq)
qed

theorem remove_question_one_based_witness:
  "fst (remove_question 7 2 two_subjects) = Inr (QuestionNotFound 2) \<and>
   bank_in (snd (remove_question 7 2 two_subjects)) 7 ''cell_biology'' = [''What is a cell?''] \<and>
   fst (remove_question 7 1 two_subjects) = Inr (QuestionRemoved 1 0) \<and>
   bank_in (snd (remove_question 7 1 two_subjects)) 7 ''cell_biology'' = [] \<and>
   bank_in (snd (remove_question 7 1 (snd (add_question 7 ''What is DNA?'' two_subjects))))
       7 ''cell_biology'' = [''What is DNA?'']"
proof -
  have a: "active_subject two_subjects_profile = Some ''cell_biology''"
    by (simp add: two_subjects_profile_def)
  have b: "map_of (subjects two_subjects_profile) ''cell_biology'' = Some biology"
    by (simp add: two_subjects_profile_def)
  have c: "bank_of biology = [''What is a cell?'']" "\<not> save_fails two_subjects"
    by (simp_all add: biology_def bank_of_def two_subjects_def)
  show ?thesis
    using remove_question_one_based [OF two_subjects_user_7 a b, of 2 "''What is DNA?''"]
      remove_question_one_based [OF two_subjects_user_7 a b, of 1 "''What is DNA?''"] c
    by simp
qed

section \<open>Uploading a document\<close>



section \<open>Collecting the text of a collection\<close>




section \<open>The document methods without an active subject\<close>




section \<open>A profile file that cannot be written\<close>




end
